theory Spec2Isabelle
  imports Main "HOL-Library.Sublist"
begin

section \<open>Python strings\<close>

text \<open>
  A Python \<open>str\<close> is a sequence of Unicode code points, and so is a \<open>ustring\<close>:
  \<open>len\<close> is \<open>length\<close>, the slice \<open>s[:n]\<close> is \<open>take n s\<close>, and \<open>in\<close>, \<open>replace\<close>,
  \<open>startswith\<close> and \<open>join\<close> compare code points. \<open>ascii\<close> reads a literal of the source
  written in ASCII.
\<close>

type_synonym ustring = "nat list"

definition ascii :: "string \<Rightarrow> ustring" where
  "ascii s = map of_char s"

definition newline :: ustring where
  "newline = [10]"

text \<open>
  The Unicode tables of the interpreter are not part of the repository. What they
  say about ASCII is written out below; what they say beyond ASCII is a parameter,
  and every statement about the code holds whatever that parameter is:
  \<^item> \<open>lower_beyond_ascii s\<close> is \<open>s.lower()\<close> for a string with a code point from 128
    upwards (the mapping may change the length and depends on the context of a
    letter, so it is a function of the whole string);
  \<^item> \<open>isspace_beyond_ascii c\<close> says whether \<open>strip()\<close> removes the code point \<open>c\<close>;
  \<^item> \<open>isword_beyond_ascii c\<close> says whether the class \<open>\w\<close> of \<open>re\<close> holds the code point \<open>c\<close>.
\<close>

record unicode =
  lower_beyond_ascii :: "ustring \<Rightarrow> ustring"
  isspace_beyond_ascii :: "nat \<Rightarrow> bool"
  isword_beyond_ascii :: "nat \<Rightarrow> bool"

definition ascii_lower :: "nat \<Rightarrow> nat" where
  "ascii_lower c = (if 65 \<le> c \<and> c \<le> 90 then c + 32 else c)"

definition py_lower :: "unicode \<Rightarrow> ustring \<Rightarrow> ustring" where
  "py_lower u s =
     (if list_all (\<lambda>c. c < 128) s then map ascii_lower s else lower_beyond_ascii u s)"

text \<open>The white space of ASCII: tab to carriage return, the four separators, the space.\<close>

definition is_space :: "unicode \<Rightarrow> nat \<Rightarrow> bool" where
  "is_space u c =
     (if c < 128 then (9 \<le> c \<and> c \<le> 13) \<or> (28 \<le> c \<and> c \<le> 32)
      else isspace_beyond_ascii u c)"

definition py_strip :: "unicode \<Rightarrow> ustring \<Rightarrow> ustring" where
  "py_strip u s = rev (dropWhile (is_space u) (rev (dropWhile (is_space u) s)))"

text \<open>\<open>sub in s\<close>: the string \<open>sub\<close> occurs in \<open>s\<close> as a contiguous run.\<close>

fun py_in :: "ustring \<Rightarrow> ustring \<Rightarrow> bool" where
  "py_in sub [] = (sub = [])"
| "py_in sub (c # cs) = (prefix sub (c # cs) \<or> py_in sub cs)"

text \<open>
  \<open>s.replace(old, new)\<close>: every occurrence of \<open>old\<close>, found from the left and without
  overlap, becomes \<open>new\<close>; the scan goes on after the occurrence and never looks
  again at what it has produced.
\<close>

fun py_replace :: "ustring \<Rightarrow> ustring \<Rightarrow> ustring \<Rightarrow> ustring" where
  "py_replace [] old new = (if old = [] then new else [])"
| "py_replace (c # cs) old new =
     (if old = [] then new @ c # py_replace cs old new
      else if prefix old (c # cs) then new @ py_replace (drop (length old) (c # cs)) old new
      else c # py_replace cs old new)"

text \<open>\<open>sep.join(xs)\<close>.\<close>

fun py_join :: "ustring \<Rightarrow> ustring list \<Rightarrow> ustring" where
  "py_join sep [] = []"
| "py_join sep [x] = x"
| "py_join sep (x # y # ys) = x @ sep @ py_join sep (y # ys)"

text \<open>\<open>str(n)\<close> for an integer: its decimal digits, the digit \<open>d\<close> being the code point 48 + d.\<close>

fun str_nat :: "nat \<Rightarrow> ustring" where
  "str_nat n = (if n < 10 then [48 + n] else str_nat (n div 10) @ [48 + n mod 10])"

definition py_str :: "int \<Rightarrow> ustring" where
  "py_str i = (if i < 0 then 45 # str_nat (nat (- i)) else str_nat (nat i))"

text \<open>
  \<open>re.findall(r'\b\w+\b', s)\<close>. A word character is a digit, a letter or the
  underscore. The scan starts a match where a word character follows a word
  boundary, the greedy \<open>\w+\<close> takes the whole run, and the run's end is a word
  boundary, so the matches are the maximal runs of word characters, left to right.
  \<open>word_runs u cur s\<close> carries the run read so far.
\<close>

definition is_word :: "unicode \<Rightarrow> nat \<Rightarrow> bool" where
  "is_word u c =
     (if c < 128
      then (48 \<le> c \<and> c \<le> 57) \<or> (65 \<le> c \<and> c \<le> 90) \<or> c = 95 \<or> (97 \<le> c \<and> c \<le> 122)
      else isword_beyond_ascii u c)"

fun word_runs :: "unicode \<Rightarrow> ustring \<Rightarrow> ustring \<Rightarrow> ustring list" where
  "word_runs u cur [] = (if cur = [] then [] else [cur])"
| "word_runs u cur (c # cs) =
     (if is_word u c then word_runs u (cur @ [c]) cs
      else (if cur = [] then [] else [cur]) @ word_runs u [] cs)"

definition findall_words :: "unicode \<Rightarrow> ustring \<Rightarrow> ustring list" where
  "findall_words u s = word_runs u [] s"

section \<open>Collaborators and effects\<close>

text \<open>
  The chat platform, the translation provider and the language detector are outside
  the repository. A \<open>world\<close> fixes what each of their calls answers; a call that raises
  answers \<open>Inl\<close> of the exception, whose text is what \<open>str(e)\<close> gives.
  \<^item> \<open>get_channel\<close> is \<open>bot.get_channel(channel_id)\<close>: the channel, or \<open>None\<close>.
  \<^item> \<open>typing ch\<close> is entering \<open>async with ch.typing()\<close>, a request to the platform.
  \<^item> \<open>translator target s\<close> is \<open>GoogleTranslator(source='auto', target=target).translate(s)\<close>.
  \<^item> \<open>single_detection s\<close> is \<open>deep_translator.single_detection(s, api_key=None)\<close>.
  \<^item> \<open>channel_send ch p\<close> is \<open>ch.send(...)\<close> with the content or the embed \<open>p\<close>.
  What a run does to them is its list of events, in the order of the calls; an event
  is the call, made whether or not it then raises. The replies to the invoking
  context (\<open>ctx.send\<close>) are the report to the caller, which the model takes to be
  delivered. Calls of the logger are not part of the trace.
\<close>

datatype exn = Exception ustring

datatype channel = TextChannel (channel_id: int)

record embed =
  title :: ustring
  colour :: int
  embed_fields :: "(ustring \<times> ustring) list"
  footer :: ustring

datatype payload = Text ustring | Embed embed

datatype event =
    Reply ustring
  | Typing channel
  | Translate ustring ustring
  | Detect ustring
  | Send channel payload

record world =
  get_channel :: "int \<Rightarrow> channel option"
  typing :: "channel \<Rightarrow> exn + unit"
  translator :: "ustring \<Rightarrow> ustring \<Rightarrow> exn + ustring"
  single_detection :: "ustring \<Rightarrow> exn + ustring"
  channel_send :: "channel \<Rightarrow> payload \<Rightarrow> exn + unit"

section \<open>Configuration (DiscordAnnouncer/config.py)\<close>

text \<open>
  The fields of \<open>BotConfig\<close> the two cogs read. A dictionary is an association list in
  insertion order, which is the order \<open>items()\<close> iterates in; a lookup is \<open>map_of\<close>.
\<close>

record config =
  command_prefix :: ustring
  auto_translate_channels :: "int list"
  announcement_language_channels :: "(ustring \<times> (ustring \<times> int) list) list"
  available_announcement_languages :: "(ustring \<times> ustring) list"

definition get_all_announcement_language_channels :: "config \<Rightarrow> int \<Rightarrow> (ustring \<times> int) list" where
  "get_all_announcement_language_channels cfg guild_id =
     (case map_of (announcement_language_channels cfg) (py_str guild_id) of
        Some language_channels \<Rightarrow> language_channels
      | None \<Rightarrow> [])"

text \<open>\<open>available_announcement_languages.get(lang_code, lang_code)\<close>.\<close>

definition lang_name :: "config \<Rightarrow> ustring \<Rightarrow> ustring" where
  "lang_name cfg lang_code =
     (case map_of (available_announcement_languages cfg) lang_code of
        Some n \<Rightarrow> n
      | None \<Rightarrow> lang_code)"

section \<open>The announce command (cogs/announcements.py)\<close>

definition no_channels_notice :: "config \<Rightarrow> ustring" where
  "no_channels_notice cfg =
     [0x274C] @ ascii '' No announcement language channels configured for this server.''
     @ newline
     @ ascii ''Use '' @ [96] @ command_prefix cfg @ ascii ''set_lang_channel'' @ [96]
     @ ascii '' to configure channels first.''"

definition progress_notice :: ustring where
  "progress_notice = [0x1F504] @ ascii '' Translating and sending announcements...''"

definition announcement_header :: ustring where
  "announcement_header = ascii ''**'' @ [0x1F4E2] @ ascii '' Announcement**'' @ newline"

definition original_label :: ustring where
  "original_label = newline @ newline @ ascii ''*Original (English):* ''"

text \<open>Lines 41 to 47: the flag and the text that is translated and sent.\<close>

definition mention_everyone :: "unicode \<Rightarrow> ustring \<Rightarrow> bool" where
  "mention_everyone u message =
     (py_in (ascii ''--everyone'') (py_lower u message)
      \<or> py_in (ascii ''@everyone'') (py_lower u message))"

definition clean_message :: "unicode \<Rightarrow> ustring \<Rightarrow> ustring" where
  "clean_message u message =
     (if mention_everyone u message
      then py_strip u
             (py_replace (py_replace message (ascii ''--everyone'') []) (ascii ''@everyone'') [])
      else message)"

text \<open>
  Lines 15 to 22: the provider is called, and when it raises the exception is caught
  here and the text comes back as it went in. The call is added to the trace.
\<close>

definition translate_text ::
  "world \<Rightarrow> ustring \<Rightarrow> ustring \<Rightarrow> event list \<Rightarrow> ustring \<times> event list" where
  "translate_text w txt target_language tr =
     (case translator w target_language txt of
        Inr translated \<Rightarrow> (translated, tr @ [Translate target_language txt])
      | Inl e \<Rightarrow> (txt, tr @ [Translate target_language txt]))"

text \<open>Lines 69 to 71, and the content of lines 73 to 76.\<close>

definition full_message :: "ustring \<Rightarrow> ustring \<Rightarrow> ustring \<Rightarrow> ustring" where
  "full_message translated_message clean lang_code =
     announcement_header @ translated_message
     @ (if lang_code \<noteq> ascii ''en'' then original_label @ clean else [])"

definition outbound :: "bool \<Rightarrow> ustring \<Rightarrow> ustring" where
  "outbound everyone full = (if everyone then ascii ''@everyone'' @ newline @ full else full)"

text \<open>
  Lines 63 to 67: the text for the channel. For a code other than \<open>en\<close> the typing
  indicator is entered first; when that raises, \<open>translate_text\<close> is not reached.
\<close>

definition translated_message ::
  "world \<Rightarrow> ustring \<Rightarrow> ustring \<Rightarrow> channel \<Rightarrow> event list \<Rightarrow> (exn + ustring) \<times> event list" where
  "translated_message w clean lang_code target_channel tr =
     (if lang_code = ascii ''en'' then (Inr clean, tr)
      else
        (case typing w target_channel of
           Inl e \<Rightarrow> (Inl e, tr @ [Typing target_channel])
         | Inr entered \<Rightarrow>
             (case translate_text w clean lang_code (tr @ [Typing target_channel]) of
                (translated, tr') \<Rightarrow> (Inr translated, tr'))))"

text \<open>
  Lines 56 to 79, the \<open>try\<close> block of the loop body for one entry of the dictionary,
  with the trace so far. It ends in one of three ways: at the \<open>continue\<close> of line 61
  (\<open>Skipped\<close>), after the send at line 78 (\<open>Delivered\<close>), or by an exception.
\<close>

datatype completion = Skipped | Delivered

definition try_destination ::
  "world \<Rightarrow> ustring \<Rightarrow> bool \<Rightarrow> ustring \<times> int \<Rightarrow> event list \<Rightarrow> (exn + completion) \<times> event list" where
  "try_destination w clean everyone d tr =
     (case d of (lang_code, cid) \<Rightarrow>
        (case get_channel w cid of
           None \<Rightarrow> (Inr Skipped, tr)
         | Some target_channel \<Rightarrow>
             (case translated_message w clean lang_code target_channel tr of
                (Inl e, tr1) \<Rightarrow> (Inl e, tr1)
              | (Inr translated, tr1) \<Rightarrow>
                  (let msg = Text (outbound everyone (full_message translated clean lang_code))
                   in case channel_send w target_channel msg of
                        Inl e \<Rightarrow> (Inl e, tr1 @ [Send target_channel msg])
                      | Inr sent \<Rightarrow> (Inr Delivered, tr1 @ [Send target_channel msg])))))"

record fanout_state =
  sent_count :: int
  failed_channels :: "ustring list"
  events :: "event list"

text \<open>
  Lines 55 to 84, the loop body: the \<open>try\<close> block, the entry of line 60 before the
  \<open>continue\<close>, the increment of line 78, and the handler of line 81 with its entry.
\<close>

definition announce_destination ::
  "world \<Rightarrow> config \<Rightarrow> ustring \<Rightarrow> bool \<Rightarrow> ustring \<times> int \<Rightarrow> fanout_state \<Rightarrow> fanout_state" where
  "announce_destination w cfg clean everyone d s =
     (case try_destination w clean everyone d (events s) of
        (Inr Skipped, tr) \<Rightarrow>
          s\<lparr>failed_channels :=
              failed_channels s @ [lang_name cfg (fst d) @ ascii '' (channel not found)''],
            events := tr\<rparr>
      | (Inr Delivered, tr) \<Rightarrow> s\<lparr>sent_count := sent_count s + 1, events := tr\<rparr>
      | (Inl e, tr) \<Rightarrow>
          s\<lparr>failed_channels := failed_channels s @ [lang_name cfg (fst d) @ ascii '' (error)''],
            events := tr\<rparr>)"

fun announce_loop ::
  "world \<Rightarrow> config \<Rightarrow> ustring \<Rightarrow> bool \<Rightarrow> (ustring \<times> int) list \<Rightarrow> fanout_state \<Rightarrow> fanout_state" where
  "announce_loop w cfg clean everyone [] s = s"
| "announce_loop w cfg clean everyone (d # ds) s =
     announce_loop w cfg clean everyone ds (announce_destination w cfg clean everyone d s)"

text \<open>Lines 86 to 90.\<close>

definition summary :: "int \<Rightarrow> ustring list \<Rightarrow> bool \<Rightarrow> ustring" where
  "summary n failed everyone =
     [0x2705] @ ascii '' Announcement Summary'' @ newline
     @ ascii ''Successfully sent to '' @ py_str n @ ascii '' channels.''
     @ (if failed \<noteq> [] then newline @ ascii ''Failed/Skipped: '' @ py_join (ascii '', '') failed
        else [])
     @ (if everyone then newline @ ascii ''@everyone was pinged in all channels.'' else [])"

text \<open>
  Lines 32 to 96. The result is the state of the locals when the command returns,
  with the trace of its calls.
\<close>

definition announce :: "unicode \<Rightarrow> world \<Rightarrow> config \<Rightarrow> int \<Rightarrow> ustring \<Rightarrow> fanout_state" where
  "announce u w cfg guild_id message =
     (let language_channels = get_all_announcement_language_channels cfg guild_id in
      if language_channels = []
      then \<lparr>sent_count = 0, failed_channels = [], events = [Reply (no_channels_notice cfg)]\<rparr>
      else
        (let s = announce_loop w cfg (clean_message u message) (mention_everyone u message)
                   language_channels
                   \<lparr>sent_count = 0, failed_channels = [], events = [Reply progress_notice]\<rparr>
         in s\<lparr>events := events s
                  @ [Reply (summary (sent_count s) (failed_channels s)
                       (mention_everyone u message))]\<rparr>))"

text \<open>Lines 98 to 101.\<close>

definition announce_everyone :: "unicode \<Rightarrow> world \<Rightarrow> config \<Rightarrow> int \<Rightarrow> ustring \<Rightarrow> fanout_state" where
  "announce_everyone u w cfg guild_id message =
     announce u w cfg guild_id (message @ ascii '' @everyone'')"

section \<open>The auto-translate listener (cogs/translation.py)\<close>

record message =
  author_bot :: bool
  author_display_name :: ustring
  content :: ustring
  channel :: channel

text \<open>\<open>s[:500] + ("..." if len(s) > 500 else "")\<close>.\<close>

definition truncate500 :: "ustring \<Rightarrow> ustring" where
  "truncate500 s = take 500 s @ (if length s > 500 then ascii ''...'' else [])"

text \<open>Lines 353 to 373; \<open>discord.Color.orange()\<close> is 0xE67E22.\<close>

definition translation_embed :: "message \<Rightarrow> ustring \<Rightarrow> ustring \<Rightarrow> embed" where
  "translation_embed m detected_lang translated =
     \<lparr>title = [0x1F504] @ ascii '' Auto Translation'',
      colour = 0xE67E22,
      embed_fields =
        [(ascii ''Original (''
            @ (if detected_lang \<noteq> ascii ''auto'' then detected_lang else ascii ''Unknown'')
            @ ascii '')'',
          truncate500 (content m)),
         (ascii ''Translation (English)'', truncate500 translated)],
      footer = ascii ''From '' @ author_display_name m\<rparr>"

text \<open>Line 386: the diagnostic sent back when the \<open>try\<close> block of line 309 raises.\<close>

definition failure_notice :: "exn \<Rightarrow> ustring" where
  "failure_notice e =
     (case e of Exception msg \<Rightarrow>
        [0x26A0, 0xFE0F] @ ascii '' Auto-translation failed: '' @ take 100 msg)"

text \<open>Lines 314 to 323: a detector that raises gives the language \<open>auto\<close>.\<close>

definition detect_language :: "world \<Rightarrow> ustring \<Rightarrow> ustring" where
  "detect_language w s =
     (case single_detection w s of Inr l \<Rightarrow> l | Inl e \<Rightarrow> ascii ''auto'')"

text \<open>
  Lines 291 to 388. The result is the trace of the calls the listener makes. A
  translator or a send that raises is answered with the diagnostic, and a diagnostic
  that cannot be sent is dropped (line 387).
\<close>

definition on_message :: "unicode \<Rightarrow> world \<Rightarrow> config \<Rightarrow> message \<Rightarrow> event list" where
  "on_message u w cfg m =
     (if author_bot m \<or> prefix (command_prefix cfg) (content m) then []
      else if py_strip u (content m) = [] then []
      else if channel_id (channel m) \<notin> set (auto_translate_channels cfg) then []
      else
        (let detected_lang = detect_language w (content m)
         in if detected_lang = ascii ''en'' then [Detect (content m)]
            else
              (case translator w (ascii ''en'') (content m) of
                 Inl e \<Rightarrow>
                   [Detect (content m), Translate (ascii ''en'') (content m),
                    Send (channel m) (Text (failure_notice e))]
               | Inr translated \<Rightarrow>
                   (let original_clean = py_strip u (py_lower u (content m));
                        translated_clean = py_strip u (py_lower u translated)
                    in if translated_clean \<noteq> original_clean \<and> length translated_clean > 0
                       then
                         (if findall_words u original_clean \<noteq> findall_words u translated_clean
                          then
                            (let e = Embed (translation_embed m detected_lang translated)
                             in case channel_send w (channel m) e of
                                  Inr sent \<Rightarrow>
                                    [Detect (content m), Translate (ascii ''en'') (content m),
                                     Send (channel m) e]
                                | Inl ex \<Rightarrow>
                                    [Detect (content m), Translate (ascii ''en'') (content m),
                                     Send (channel m) e,
                                     Send (channel m) (Text (failure_notice ex))])
                          else [Detect (content m), Translate (ascii ''en'') (content m)])
                       else [Detect (content m), Translate (ascii ''en'') (content m)]))))"

section \<open>Vocabulary of the properties\<close>

text \<open>The kinds of call in a trace, and whether a call returned.\<close>

fun is_translate :: "event \<Rightarrow> bool" where
  "is_translate (Translate target s) = True"
| "is_translate ev = False"

fun is_detect :: "event \<Rightarrow> bool" where
  "is_detect (Detect s) = True"
| "is_detect ev = False"

fun is_send :: "event \<Rightarrow> bool" where
  "is_send (Send ch p) = True"
| "is_send ev = False"

fun is_embed_send :: "event \<Rightarrow> bool" where
  "is_embed_send (Send ch (Embed e)) = True"
| "is_embed_send ev = False"

fun returned :: "exn + 'a \<Rightarrow> bool" where
  "returned (Inr x) = True"
| "returned (Inl e) = False"

text \<open>
  A message that passes the checks of lines 294 to 305: written by a human, not a
  command, not blank, and in a channel with auto-translation switched on.
\<close>

definition gated_in :: "unicode \<Rightarrow> config \<Rightarrow> message \<Rightarrow> bool" where
  "gated_in u cfg m =
     (\<not> author_bot m \<and> \<not> prefix (command_prefix cfg) (content m)
      \<and> py_strip u (content m) \<noteq> []
      \<and> channel_id (channel m) \<in> set (auto_translate_channels cfg))"

text \<open>
  What the loop body does for one destination on its own: the body run from the
  state in which nothing has been counted, recorded or called yet.
\<close>

definition destination_run ::
  "world \<Rightarrow> config \<Rightarrow> ustring \<Rightarrow> bool \<Rightarrow> ustring \<times> int \<Rightarrow> fanout_state" where
  "destination_run w cfg clean everyone d =
     announce_destination w cfg clean everyone d
       \<lparr>sent_count = 0, failed_channels = [], events = []\<rparr>"

text \<open>
  The status of a destination, in the words of the specification's DispatchOutcome:
  it names the way the \<open>try\<close> block of the code ended for that destination.
\<close>

datatype status = Sent | ChannelNotFound | SendFailed

fun status_of :: "exn + completion \<Rightarrow> status" where
  "status_of (Inr Delivered) = Sent"
| "status_of (Inr Skipped) = ChannelNotFound"
| "status_of (Inl e) = SendFailed"

definition destination_status :: "world \<Rightarrow> ustring \<Rightarrow> bool \<Rightarrow> ustring \<times> int \<Rightarrow> status" where
  "destination_status w clean everyone d = status_of (fst (try_destination w clean everyone d []))"


text \<open>The entry of \<open>failed_channels\<close> a status stands for; \<open>Sent\<close> leaves none.\<close>

definition failure_entry :: "config \<Rightarrow> (ustring \<times> int) \<times> status \<Rightarrow> ustring list" where
  "failure_entry cfg out =
     (case snd out of
        Sent \<Rightarrow> []
      | ChannelNotFound \<Rightarrow> [lang_name cfg (fst (fst out)) @ ascii '' (channel not found)'']
      | SendFailed \<Rightarrow> [lang_name cfg (fst (fst out)) @ ascii '' (error)''])"

section \<open>A guild, a platform and providers to run the cogs on\<close>

text \<open>
  The part of the Unicode tables that the examples read: the Russian capitals and
  their small letters, the letters of Latin-1, and the white space beyond ASCII.
\<close>

definition demo_unicode :: unicode where
  "demo_unicode =
     \<lparr>lower_beyond_ascii =
        map (\<lambda>c. if (65 \<le> c \<and> c \<le> 90) \<or> (0x410 \<le> c \<and> c \<le> 0x42F) then c + 32 else c),
      isspace_beyond_ascii =
        (\<lambda>c. c \<in> set [0x85, 0xA0, 0x1680, 0x2028, 0x2029, 0x202F, 0x205F, 0x3000]
             \<or> (0x2000 \<le> c \<and> c \<le> 0x200A)),
      isword_beyond_ascii =
        (\<lambda>c. (0x410 \<le> c \<and> c \<le> 0x44F)
             \<or> (0xC0 \<le> c \<and> c \<le> 0xFF \<and> c \<noteq> 0xD7 \<and> c \<noteq> 0xF7))\<rparr>"

text \<open>
  Guild 1 announces in English, French and German, guild 2 in Korean and Portuguese,
  guild 4 in Thai and Portuguese. Channel 12 no longer exists, the provider is down
  for German, channel 14 rejects every message and channel 16 refuses the typing
  indicator. The detector knows three messages and raises on the rest.
\<close>

definition demo_config :: config where
  "demo_config =
     \<lparr>command_prefix = ascii ''!'',
      auto_translate_channels = [100],
      announcement_language_channels =
        [(ascii ''1'', [(ascii ''en'', 11), (ascii ''fr'', 12), (ascii ''de'', 13)]),
         (ascii ''2'', [(ascii ''ko'', 14), (ascii ''pt'', 15)]),
         (ascii ''4'', [(ascii ''th'', 16), (ascii ''pt'', 15)])],
      available_announcement_languages =
        [(ascii ''tl'', ascii ''Tagalog''), (ascii ''id'', ascii ''Indonesian''),
         (ascii ''pt'', ascii ''Portuguese''), (ascii ''en'', ascii ''English''),
         (ascii ''ko'', ascii ''Korean''), (ascii ''zh'', ascii ''Chinese''),
         (ascii ''ms'', ascii ''Malaysian''), (ascii ''th'', ascii ''Thai'')]\<rparr>"

definition demo_world :: world where
  "demo_world =
     \<lparr>get_channel = (\<lambda>cid. if cid = 12 then None else Some (TextChannel cid)),
      typing =
        (\<lambda>ch. if channel_id ch = 16 then Inl (Exception (ascii ''403 Forbidden'')) else Inr ()),
      translator =
        (\<lambda>target s.
           if target = ascii ''de'' then Inl (Exception (ascii ''provider down''))
           else if s = ascii ''Bonjour'' then Inr (ascii ''Hello'')
           else if s = ascii ''hola'' then Inr []
           else if s = ascii ''Hello World'' then Inr (ascii ''hello   world'')
           else if s = ascii ''its'' then Inr (ascii ''it'' @ [39] @ ascii ''s'')
           else if s = ascii ''helloworld'' then Inr (ascii ''hello world'')
           else if s = [0x41F, 0x420, 0x418, 0x412, 0x415, 0x422]
             then Inr [0x43F, 0x440, 0x438, 0x432, 0x435, 0x442]
           else if s = [0xBF] @ ascii ''Hello?'' then Inr (ascii ''Hello?'')
           else Inr (target @ ascii '': '' @ s)),
      single_detection =
        (\<lambda>s. if s = ascii ''ok'' then Inr (ascii ''en'')
             else if s = ascii ''Bonjour'' then Inr (ascii ''fr'')
             else if s = ascii ''hola'' then Inr (ascii ''es'')
             else Inl (Exception (ascii ''no api key''))),
      channel_send =
        (\<lambda>ch p. if channel_id ch = 14 then Inl (Exception (ascii ''403 Forbidden''))
                else Inr ())\<rparr>"

definition demo_message :: "ustring \<Rightarrow> message" where
  "demo_message s =
     \<lparr>author_bot = False, author_display_name = ascii ''ana'', content = s,
      channel = TextChannel 100\<rparr>"

section \<open>The loop of the announce command, destination by destination\<close>

text \<open>
  The \<open>try\<close> block only appends to the trace it is given, and how it ends does not
  depend on that trace; so the loop body only appends to the trace and to
  \<open>failed_channels\<close> and only adds to \<open>sent_count\<close>, and what it adds does not depend
  on the state it starts from.
\<close>

lemma translate_text_eq:
  "translate_text w txt target tr =
     (case translator w target txt of Inr translated \<Rightarrow> translated | Inl e \<Rightarrow> txt,
      tr @ [Translate target txt])"
  by (simp add: translate_text_def split: sum.splits)

lemma try_destination_trace:
  "snd (try_destination w clean everyone (lang_code, cid) tr) =
     tr @ (case get_channel w cid of
             None \<Rightarrow> []
           | Some ch \<Rightarrow>
               if lang_code = ascii ''en''
               then [Send ch (Text (outbound everyone (full_message clean clean lang_code)))]
               else (case typing w ch of
                       Inl e \<Rightarrow> [Typing ch]
                     | Inr entered \<Rightarrow>
                         [Typing ch, Translate lang_code clean,
                          Send ch (Text (outbound everyone
                            (full_message
                               (case translator w lang_code clean of
                                  Inr translated \<Rightarrow> translated
                                | Inl e \<Rightarrow> clean)
                               clean lang_code)))]))"
  by (simp add: try_destination_def translated_message_def translate_text_eq Let_def
        split: option.splits sum.splits)

lemma try_destination_exit:
  "fst (try_destination w clean everyone (lang_code, cid) tr) =
     (case get_channel w cid of
        None \<Rightarrow> Inr Skipped
      | Some ch \<Rightarrow>
          if lang_code = ascii ''en''
          then (case channel_send w ch
                       (Text (outbound everyone (full_message clean clean lang_code))) of
                  Inl e \<Rightarrow> Inl e
                | Inr sent \<Rightarrow> Inr Delivered)
          else (case typing w ch of
                  Inl e \<Rightarrow> Inl e
                | Inr entered \<Rightarrow>
                    (case channel_send w ch
                            (Text (outbound everyone
                               (full_message
                                  (case translator w lang_code clean of
                                     Inr translated \<Rightarrow> translated
                                   | Inl e \<Rightarrow> clean)
                                  clean lang_code))) of
                       Inl e \<Rightarrow> Inl e
                     | Inr sent \<Rightarrow> Inr Delivered)))"
  by (simp add: try_destination_def translated_message_def translate_text_eq Let_def
        split: option.splits sum.splits)

lemma try_destination_split:
  "try_destination w clean everyone d tr =
     (fst (try_destination w clean everyone d []),
      tr @ snd (try_destination w clean everyone d []))"
proof (cases d)
  case (Pair lang_code cid)
  have "fst (try_destination w clean everyone (lang_code, cid) tr)
          = fst (try_destination w clean everyone (lang_code, cid) [])"
    by (simp only: try_destination_exit)
  moreover have "snd (try_destination w clean everyone (lang_code, cid) tr)
          = tr @ snd (try_destination w clean everyone (lang_code, cid) [])"
    by (simp add: try_destination_trace)
  ultimately show ?thesis
    unfolding Pair by (simp add: prod_eq_iff)
qed

lemma announce_destination_append:
  "announce_destination w cfg clean everyone d s =
     \<lparr>sent_count = sent_count s + sent_count (destination_run w cfg clean everyone d),
      failed_channels =
        failed_channels s @ failed_channels (destination_run w cfg clean everyone d),
      events = events s @ events (destination_run w cfg clean everyone d)\<rparr>"
proof -
  obtain x tr where run: "try_destination w clean everyone d [] = (x, tr)"
    by (cases "try_destination w clean everyone d []")
  have "try_destination w clean everyone d (events s) = (x, events s @ tr)"
    using try_destination_split [of w clean everyone d "events s"] run by simp
  then show ?thesis
    using run
    by (cases s)
       (simp add: announce_destination_def destination_run_def
          split: sum.splits completion.splits)
qed

lemma run_sent:
  "sent_count (destination_run w cfg clean everyone d) =
     (if destination_status w clean everyone d = Sent then 1 else 0)"
  by (cases "try_destination w clean everyone d []")
     (simp add: destination_run_def announce_destination_def destination_status_def
        split: sum.splits completion.splits)

lemma run_failed:
  "failed_channels (destination_run w cfg clean everyone d) =
     failure_entry cfg (d, destination_status w clean everyone d)"
  by (cases "try_destination w clean everyone d []")
     (simp add: destination_run_def announce_destination_def destination_status_def
        failure_entry_def split: sum.splits completion.splits)

lemma run_events:
  "events (destination_run w cfg clean everyone d) = snd (try_destination w clean everyone d [])"
  by (cases "try_destination w clean everyone d []")
     (simp add: destination_run_def announce_destination_def
        split: sum.splits completion.splits)

lemma loop_events:
  "events (announce_loop w cfg clean everyone ds s) =
     events s @ concat (map (\<lambda>d. snd (try_destination w clean everyone d [])) ds)"
proof (induction ds arbitrary: s)
  case Nil
  show ?case by simp
next
  case (Cons d ds)
  show ?case
    by (simp add: Cons.IH)
       (simp add: announce_destination_append [of w cfg clean everyone d s] run_events)
qed

lemma loop_failed:
  "failed_channels (announce_loop w cfg clean everyone ds s) =
     failed_channels s
     @ concat (map (\<lambda>d. failure_entry cfg (d, destination_status w clean everyone d)) ds)"
proof (induction ds arbitrary: s)
  case Nil
  show ?case by simp
next
  case (Cons d ds)
  show ?case
    by (simp add: Cons.IH)
       (simp add: announce_destination_append [of w cfg clean everyone d s] run_failed)
qed

lemma loop_sent:
  "sent_count (announce_loop w cfg clean everyone ds s) =
     sent_count s
     + int (length (filter (\<lambda>d. destination_status w clean everyone d = Sent) ds))"
proof (induction ds arbitrary: s)
  case Nil
  show ?case by simp
next
  case (Cons d ds)
  show ?case
    by (simp add: Cons.IH)
       (simp add: announce_destination_append [of w cfg clean everyone d s] run_sent)
qed

section \<open>The listener's gates\<close>

lemmas string_ops = ascii_def py_lower_def ascii_lower_def py_strip_def is_space_def
  findall_words_def is_word_def demo_unicode_def

text \<open>
  C8: a message written by a bot, a message that is empty or holds nothing but
  white space (of ASCII or beyond) once trimmed, and a message in a channel that is
  not watched each leave the listener with an empty trace: no detector call, no
  translator call and nothing sent.
\<close>

theorem on_message_gates:
  assumes "author_bot m \<or> py_strip u (content m) = []
           \<or> channel_id (channel m) \<notin> set (auto_translate_channels cfg)"
  shows "on_message u w cfg m = []"
  using assms by (auto simp: on_message_def)

theorem on_message_gates_witness:
  "author_bot ((demo_message (ascii ''Bonjour''))\<lparr>author_bot := True\<rparr>)
   \<and> on_message demo_unicode demo_world demo_config
        ((demo_message (ascii ''Bonjour''))\<lparr>author_bot := True\<rparr>) = []
   \<and> py_strip demo_unicode (content (demo_message (ascii ''  ''))) = []
   \<and> on_message demo_unicode demo_world demo_config (demo_message (ascii ''  '')) = []
   \<and> py_strip demo_unicode (content (demo_message [0x3000, 0xA0])) = []
   \<and> on_message demo_unicode demo_world demo_config (demo_message [0x3000, 0xA0]) = []
   \<and> channel_id (channel ((demo_message (ascii ''Bonjour''))\<lparr>channel := TextChannel 7\<rparr>))
        \<notin> set (auto_translate_channels demo_config)
   \<and> on_message demo_unicode demo_world demo_config
        ((demo_message (ascii ''Bonjour''))\<lparr>channel := TextChannel 7\<rparr>) = []"
proof -
  have bot: "author_bot ((demo_message (ascii ''Bonjour''))\<lparr>author_bot := True\<rparr>)"
    by simp
  have blank: "py_strip demo_unicode (content (demo_message (ascii ''  ''))) = []"
    by (simp add: demo_message_def string_ops)
  have wide: "py_strip demo_unicode (content (demo_message [0x3000, 0xA0])) = []"
    by (simp add: demo_message_def string_ops)
  have unwatched:
    "channel_id (channel ((demo_message (ascii ''Bonjour''))\<lparr>channel := TextChannel 7\<rparr>))
       \<notin> set (auto_translate_channels demo_config)"
    by (simp add: demo_config_def)
  show ?thesis
    using bot blank wide unwatched
      on_message_gates [of "(demo_message (ascii ''Bonjour''))\<lparr>author_bot := True\<rparr>"
        demo_unicode demo_config demo_world]
      on_message_gates [of "demo_message (ascii ''  '')" demo_unicode demo_config demo_world]
      on_message_gates [of "demo_message [0x3000, 0xA0]" demo_unicode demo_config demo_world]
      on_message_gates [of "(demo_message (ascii ''Bonjour''))\<lparr>channel := TextChannel 7\<rparr>"
        demo_unicode demo_config demo_world]
    by simp
qed

text \<open>
  C10: a message whose content starts with the command prefix is ignored as well,
  whoever wrote it, whatever its language and whether or not its channel is watched:
  the trace is empty.
\<close>

theorem on_message_ignores_commands:
  assumes "prefix (command_prefix cfg) (content m)"
  shows "on_message u w cfg m = []"
  using assms by (simp add: on_message_def)

theorem on_message_ignores_commands_witness:
  "prefix (command_prefix demo_config) (content (demo_message (ascii ''!Bonjour'')))
   \<and> \<not> author_bot (demo_message (ascii ''!Bonjour''))
   \<and> py_strip demo_unicode (content (demo_message (ascii ''!Bonjour''))) \<noteq> []
   \<and> channel_id (channel (demo_message (ascii ''!Bonjour'')))
        \<in> set (auto_translate_channels demo_config)
   \<and> on_message demo_unicode demo_world demo_config (demo_message (ascii ''!Bonjour'')) = []"
proof -
  have cmd: "prefix (command_prefix demo_config) (content (demo_message (ascii ''!Bonjour'')))"
    by (simp add: demo_config_def demo_message_def ascii_def)
  have rest:
    "\<not> author_bot (demo_message (ascii ''!Bonjour''))
     \<and> py_strip demo_unicode (content (demo_message (ascii ''!Bonjour''))) \<noteq> []
     \<and> channel_id (channel (demo_message (ascii ''!Bonjour'')))
          \<in> set (auto_translate_channels demo_config)"
    by (simp add: demo_config_def demo_message_def string_ops)
  show ?thesis
    using cmd rest on_message_ignores_commands [OF cmd, of demo_unicode demo_world] by simp
qed

text \<open>
  C9: when the detector answers exactly \<open>en\<close> for a message that passed the gates,
  the listener stops after the detector call: the translator is not called and
  nothing is sent.
\<close>

theorem on_message_english_stops:
  assumes "gated_in u cfg m" and "single_detection w (content m) = Inr (ascii ''en'')"
  shows "on_message u w cfg m = [Detect (content m)]
         \<and> filter is_translate (on_message u w cfg m) = []
         \<and> filter is_send (on_message u w cfg m) = []"
  using assms by (simp add: on_message_def gated_in_def detect_language_def)

theorem on_message_english_stops_witness:
  "gated_in demo_unicode demo_config (demo_message (ascii ''ok''))
   \<and> single_detection demo_world (content (demo_message (ascii ''ok''))) = Inr (ascii ''en'')
   \<and> on_message demo_unicode demo_world demo_config (demo_message (ascii ''ok''))
        = [Detect (ascii ''ok'')]
   \<and> filter is_translate
        (on_message demo_unicode demo_world demo_config (demo_message (ascii ''ok''))) = []
   \<and> filter is_send
        (on_message demo_unicode demo_world demo_config (demo_message (ascii ''ok''))) = []"
proof -
  have g: "gated_in demo_unicode demo_config (demo_message (ascii ''ok''))"
    by (simp add: gated_in_def demo_config_def demo_message_def string_ops)
  have d: "single_detection demo_world (content (demo_message (ascii ''ok''))) = Inr (ascii ''en'')"
    by (simp add: demo_world_def demo_message_def)
  have c: "content (demo_message (ascii ''ok'')) = ascii ''ok''"
    by (simp add: demo_message_def)
  show ?thesis
    using g d on_message_english_stops [OF g d] by (simp add: c)
qed

section \<open>The listener's equivalence test\<close>

text \<open>
  The trace of a message that passed the gates, whose detected language is not
  \<open>en\<close> (the detector may have raised) and for which the translator returned.
\<close>

lemma on_message_translated:
  assumes "gated_in u cfg m" and "single_detection w (content m) \<noteq> Inr (ascii ''en'')"
    and "translator w (ascii ''en'') (content m) = Inr translated"
  shows "on_message u w cfg m =
    [Detect (content m), Translate (ascii ''en'') (content m)]
    @ (if py_strip u (py_lower u translated) \<noteq> py_strip u (py_lower u (content m))
          \<and> py_strip u (py_lower u translated) \<noteq> []
          \<and> findall_words u (py_strip u (py_lower u (content m)))
              \<noteq> findall_words u (py_strip u (py_lower u translated))
       then Send (channel m) (Embed (translation_embed m (detect_language w (content m)) translated))
            # (case channel_send w (channel m)
                      (Embed (translation_embed m (detect_language w (content m)) translated)) of
                 Inr sent \<Rightarrow> []
               | Inl ex \<Rightarrow> [Send (channel m) (Text (failure_notice ex))])
       else [])"
proof -
  have "detect_language w (content m) \<noteq> ascii ''en''"
    using assms(2) by (auto simp: detect_language_def ascii_def split: sum.splits)
  then show ?thesis
    using assms(1,3)
    by (simp add: on_message_def gated_in_def Let_def split: sum.splits)
qed

lemma demo_gated:
  "gated_in demo_unicode demo_config (demo_message (ascii ''Bonjour''))
   \<and> gated_in demo_unicode demo_config (demo_message (ascii ''Hello World''))
   \<and> gated_in demo_unicode demo_config (demo_message [0x41F, 0x420, 0x418, 0x412, 0x415, 0x422])
   \<and> gated_in demo_unicode demo_config (demo_message ([0xBF] @ ascii ''Hello?''))"
  by (simp add: gated_in_def demo_config_def demo_message_def string_ops)

text \<open>
  C3, as the code has it: the translation is published exactly when the lower-cased,
  trimmed translation differs from the lower-cased, trimmed original, is not empty,
  and the word sequences of the two (the maximal runs of word characters, with
  white space and punctuation as boundaries) differ. The embed carries the detected
  language, the original and the translation. Texts with the same word sequence,
  which differ at most in the white space and punctuation around the same words,
  and texts that differ only in case are never published.
\<close>

theorem on_message_publishes_iff:
  assumes "gated_in u cfg m" and "single_detection w (content m) \<noteq> Inr (ascii ''en'')"
    and "translator w (ascii ''en'') (content m) = Inr translated"
  shows "(filter is_embed_send (on_message u w cfg m) \<noteq> []) =
           (py_strip u (py_lower u translated) \<noteq> py_strip u (py_lower u (content m))
            \<and> py_strip u (py_lower u translated) \<noteq> []
            \<and> findall_words u (py_strip u (py_lower u (content m)))
                \<noteq> findall_words u (py_strip u (py_lower u translated)))
         \<and> filter is_embed_send (on_message u w cfg m) =
             (if py_strip u (py_lower u translated) \<noteq> py_strip u (py_lower u (content m))
                 \<and> py_strip u (py_lower u translated) \<noteq> []
                 \<and> findall_words u (py_strip u (py_lower u (content m)))
                     \<noteq> findall_words u (py_strip u (py_lower u translated))
              then [Send (channel m)
                      (Embed (translation_embed m (detect_language w (content m)) translated))]
              else [])
         \<and> (findall_words u (py_strip u (py_lower u (content m)))
                = findall_words u (py_strip u (py_lower u translated))
              \<longrightarrow> filter is_send (on_message u w cfg m) = [])
         \<and> (py_lower u translated = py_lower u (content m)
              \<longrightarrow> filter is_send (on_message u w cfg m) = [])"
  by (simp add: on_message_translated [OF assms] split: sum.splits)

theorem on_message_publishes_iff_witness:
  "gated_in demo_unicode demo_config (demo_message (ascii ''Bonjour''))
   \<and> single_detection demo_world (content (demo_message (ascii ''Bonjour''))) \<noteq> Inr (ascii ''en'')
   \<and> translator demo_world (ascii ''en'') (content (demo_message (ascii ''Bonjour'')))
        = Inr (ascii ''Hello'')
   \<and> filter is_embed_send
        (on_message demo_unicode demo_world demo_config (demo_message (ascii ''Bonjour''))) =
       [Send (TextChannel 100)
          (Embed (translation_embed (demo_message (ascii ''Bonjour'')) (ascii ''fr'')
                    (ascii ''Hello'')))]
   \<and> translator demo_world (ascii ''en'') (content (demo_message (ascii ''Hello World'')))
        = Inr (ascii ''hello   world'')
   \<and> filter is_send
        (on_message demo_unicode demo_world demo_config (demo_message (ascii ''Hello World''))) = []
   \<and> translator demo_world (ascii ''en'')
        (content (demo_message [0x41F, 0x420, 0x418, 0x412, 0x415, 0x422]))
        = Inr [0x43F, 0x440, 0x438, 0x432, 0x435, 0x442]
   \<and> filter is_send
        (on_message demo_unicode demo_world demo_config
           (demo_message [0x41F, 0x420, 0x418, 0x412, 0x415, 0x422])) = []
   \<and> translator demo_world (ascii ''en'') (content (demo_message ([0xBF] @ ascii ''Hello?'')))
        = Inr (ascii ''Hello?'')
   \<and> filter is_send
        (on_message demo_unicode demo_world demo_config
           (demo_message ([0xBF] @ ascii ''Hello?''))) = []"
proof -
  note g = demo_gated
  have d1: "single_detection demo_world (content (demo_message (ascii ''Bonjour'')))
              \<noteq> Inr (ascii ''en'')"
    by (simp add: demo_world_def demo_message_def ascii_def)
  have t1: "translator demo_world (ascii ''en'') (content (demo_message (ascii ''Bonjour'')))
              = Inr (ascii ''Hello'')"
    by (simp add: demo_world_def demo_message_def ascii_def)
  have l1: "detect_language demo_world (content (demo_message (ascii ''Bonjour''))) = ascii ''fr''"
    by (simp add: detect_language_def demo_world_def demo_message_def ascii_def)
  have c1: "py_strip demo_unicode (py_lower demo_unicode (ascii ''Hello''))
        \<noteq> py_strip demo_unicode (py_lower demo_unicode (content (demo_message (ascii ''Bonjour''))))
      \<and> py_strip demo_unicode (py_lower demo_unicode (ascii ''Hello'')) \<noteq> []
      \<and> findall_words demo_unicode
           (py_strip demo_unicode (py_lower demo_unicode (content (demo_message (ascii ''Bonjour'')))))
           \<noteq> findall_words demo_unicode (py_strip demo_unicode (py_lower demo_unicode (ascii ''Hello'')))"
    by (simp add: demo_message_def string_ops)
  have s1: "filter is_embed_send
        (on_message demo_unicode demo_world demo_config (demo_message (ascii ''Bonjour''))) =
       [Send (TextChannel 100)
          (Embed (translation_embed (demo_message (ascii ''Bonjour'')) (ascii ''fr'')
                    (ascii ''Hello'')))]"
    using on_message_publishes_iff [OF conjunct1 [OF g] d1 t1] c1 l1
    by (simp add: demo_message_def)
  have d2: "single_detection demo_world (content (demo_message (ascii ''Hello World'')))
              \<noteq> Inr (ascii ''en'')"
    by (simp add: demo_world_def demo_message_def ascii_def)
  have t2: "translator demo_world (ascii ''en'') (content (demo_message (ascii ''Hello World'')))
              = Inr (ascii ''hello   world'')"
    by (simp add: demo_world_def demo_message_def ascii_def)
  have c2: "findall_words demo_unicode
           (py_strip demo_unicode (py_lower demo_unicode (content (demo_message (ascii ''Hello World'')))))
           = findall_words demo_unicode
               (py_strip demo_unicode (py_lower demo_unicode (ascii ''hello   world'')))"
    by (simp add: demo_message_def string_ops)
  have s2: "filter is_send
        (on_message demo_unicode demo_world demo_config (demo_message (ascii ''Hello World''))) = []"
    using on_message_publishes_iff [OF conjunct1 [OF conjunct2 [OF g]] d2 t2] c2 by simp
  have d3: "single_detection demo_world
              (content (demo_message [0x41F, 0x420, 0x418, 0x412, 0x415, 0x422]))
              \<noteq> Inr (ascii ''en'')"
    by (simp add: demo_world_def demo_message_def ascii_def)
  have t3: "translator demo_world (ascii ''en'')
              (content (demo_message [0x41F, 0x420, 0x418, 0x412, 0x415, 0x422]))
              = Inr [0x43F, 0x440, 0x438, 0x432, 0x435, 0x442]"
    by (simp add: demo_world_def demo_message_def ascii_def)
  have c3: "py_lower demo_unicode [0x43F, 0x440, 0x438, 0x432, 0x435, 0x442]
          = py_lower demo_unicode (content (demo_message [0x41F, 0x420, 0x418, 0x412, 0x415, 0x422]))"
    by (simp add: demo_message_def string_ops)
  have s3: "filter is_send
        (on_message demo_unicode demo_world demo_config
           (demo_message [0x41F, 0x420, 0x418, 0x412, 0x415, 0x422])) = []"
    using on_message_publishes_iff [OF conjunct1 [OF conjunct2 [OF conjunct2 [OF g]]] d3 t3] c3
    by simp
  have d4: "single_detection demo_world (content (demo_message ([0xBF] @ ascii ''Hello?'')))
              \<noteq> Inr (ascii ''en'')"
    by (simp add: demo_world_def demo_message_def ascii_def)
  have t4: "translator demo_world (ascii ''en'') (content (demo_message ([0xBF] @ ascii ''Hello?'')))
              = Inr (ascii ''Hello?'')"
    by (simp add: demo_world_def demo_message_def ascii_def)
  have c4: "findall_words demo_unicode
           (py_strip demo_unicode (py_lower demo_unicode
              (content (demo_message ([0xBF] @ ascii ''Hello?'')))))
           = findall_words demo_unicode
               (py_strip demo_unicode (py_lower demo_unicode (ascii ''Hello?'')))"
    by (simp add: demo_message_def string_ops)
  have s4: "filter is_send
        (on_message demo_unicode demo_world demo_config
           (demo_message ([0xBF] @ ascii ''Hello?''))) = []"
    using on_message_publishes_iff [OF conjunct2 [OF conjunct2 [OF conjunct2 [OF g]]] d4 t4] c4
    by simp
  show ?thesis
    using g d1 t1 s1 t2 s2 t3 s3 t4 s4 by simp
qed

text \<open>
  Where the claim as first stated fails. The empty translation differs from the
  original as a string and as a word sequence, and line 345 still keeps it from
  being published. \<open>its\<close> and \<open>it's\<close> differ only in punctuation, \<open>helloworld\<close> and
  \<open>hello world\<close> only in white space; both pairs differ as word sequences and are
  published.
\<close>

theorem on_message_gate_counterexample:
  "gated_in demo_unicode demo_config (demo_message (ascii ''hola''))
   \<and> single_detection demo_world (content (demo_message (ascii ''hola''))) = Inr (ascii ''es'')
   \<and> translator demo_world (ascii ''en'') (content (demo_message (ascii ''hola''))) = Inr []
   \<and> py_strip demo_unicode (py_lower demo_unicode (content (demo_message (ascii ''hola''))))
        \<noteq> py_strip demo_unicode (py_lower demo_unicode [])
   \<and> findall_words demo_unicode
        (py_strip demo_unicode (py_lower demo_unicode (content (demo_message (ascii ''hola'')))))
        \<noteq> findall_words demo_unicode (py_strip demo_unicode (py_lower demo_unicode []))
   \<and> on_message demo_unicode demo_world demo_config (demo_message (ascii ''hola''))
        = [Detect (ascii ''hola''), Translate (ascii ''en'') (ascii ''hola'')]
   \<and> gated_in demo_unicode demo_config (demo_message (ascii ''its''))
   \<and> translator demo_world (ascii ''en'') (content (demo_message (ascii ''its'')))
        = Inr (ascii ''it'' @ [39] @ ascii ''s'')
   \<and> filter (is_word demo_unicode) (ascii ''its'')
        = filter (is_word demo_unicode) (ascii ''it'' @ [39] @ ascii ''s'')
   \<and> filter is_embed_send
        (on_message demo_unicode demo_world demo_config (demo_message (ascii ''its''))) =
       [Send (TextChannel 100)
          (Embed (translation_embed (demo_message (ascii ''its'')) (ascii ''auto'')
                    (ascii ''it'' @ [39] @ ascii ''s'')))]
   \<and> gated_in demo_unicode demo_config (demo_message (ascii ''helloworld''))
   \<and> translator demo_world (ascii ''en'') (content (demo_message (ascii ''helloworld'')))
        = Inr (ascii ''hello world'')
   \<and> filter (\<lambda>c. \<not> is_space demo_unicode c) (ascii ''helloworld'')
        = filter (\<lambda>c. \<not> is_space demo_unicode c) (ascii ''hello world'')
   \<and> filter is_embed_send
        (on_message demo_unicode demo_world demo_config (demo_message (ascii ''helloworld''))) =
       [Send (TextChannel 100)
          (Embed (translation_embed (demo_message (ascii ''helloworld'')) (ascii ''auto'')
                    (ascii ''hello world'')))]"
  by (simp add: on_message_def gated_in_def demo_config_def demo_message_def demo_world_def
        detect_language_def string_ops Let_def)

section \<open>The announce command without destinations\<close>

text \<open>
  C6: when no language channel is configured for the guild, the command replies with
  the notice that none is configured and returns: no translator call, nothing sent
  to any channel.
\<close>

theorem announce_no_destinations:
  assumes "get_all_announcement_language_channels cfg guild_id = []"
  shows "announce u w cfg guild_id message =
           \<lparr>sent_count = 0, failed_channels = [], events = [Reply (no_channels_notice cfg)]\<rparr>
         \<and> filter is_translate (events (announce u w cfg guild_id message)) = []
         \<and> filter is_send (events (announce u w cfg guild_id message)) = []"
  using assms by (simp add: announce_def)

theorem announce_no_destinations_witness:
  "get_all_announcement_language_channels demo_config 3 = []
   \<and> announce demo_unicode demo_world demo_config 3 (ascii ''hi --everyone'') =
       \<lparr>sent_count = 0, failed_channels = [],
        events = [Reply (no_channels_notice demo_config)]\<rparr>
   \<and> filter is_translate
        (events (announce demo_unicode demo_world demo_config 3 (ascii ''hi --everyone''))) = []
   \<and> filter is_send
        (events (announce demo_unicode demo_world demo_config 3 (ascii ''hi --everyone''))) = []"
proof -
  have none: "get_all_announcement_language_channels demo_config 3 = []"
    by (simp add: get_all_announcement_language_channels_def demo_config_def py_str_def ascii_def)
  show ?thesis
    using none
      announce_no_destinations [OF none, of demo_unicode demo_world "ascii ''hi --everyone''"]
    by simp
qed

section \<open>The fan-out over the destinations\<close>





lemma announce_sent:
  assumes "get_all_announcement_language_channels cfg guild_id \<noteq> []"
  shows "sent_count (announce u w cfg guild_id message) =
     int (length (filter
       (\<lambda>d. destination_status w (clean_message u message) (mention_everyone u message) d = Sent)
       (get_all_announcement_language_channels cfg guild_id)))"
  using assms by (simp add: announce_def Let_def loop_sent)

lemma announce_failed:
  assumes "get_all_announcement_language_channels cfg guild_id \<noteq> []"
  shows "failed_channels (announce u w cfg guild_id message) =
     concat (map (\<lambda>d. failure_entry cfg
         (d, destination_status w (clean_message u message) (mention_everyone u message) d))
       (get_all_announcement_language_channels cfg guild_id))"
  using assms by (simp add: announce_def Let_def loop_failed)

lemma announce_events:
  assumes "get_all_announcement_language_channels cfg guild_id \<noteq> []"
  shows "events (announce u w cfg guild_id message) =
     Reply progress_notice
     # concat (map (\<lambda>d. snd
         (try_destination w (clean_message u message) (mention_everyone u message) d []))
       (get_all_announcement_language_channels cfg guild_id))
     @ [Reply (summary (sent_count (announce u w cfg guild_id message))
          (failed_channels (announce u w cfg guild_id message)) (mention_everyone u message))]"
  using assms by (simp add: announce_def Let_def loop_events)

lemma try_destination_translate:
  "filter is_translate (snd (try_destination w clean everyone d [])) =
     (if fst d \<noteq> ascii ''en''
         \<and> (case get_channel w (snd d) of None \<Rightarrow> False | Some ch \<Rightarrow> returned (typing w ch))
      then [Translate (fst d) clean] else [])"
  by (cases d) (simp add: try_destination_trace split: option.splits sum.splits)

lemma try_destination_send:
  "length (filter is_send (snd (try_destination w clean everyone d []))) \<le> 1"
  by (cases d) (simp add: try_destination_trace split: option.splits sum.splits)

text \<open>
  The demo guilds and two plain messages, evaluated once.
\<close>

lemmas demo_ops = get_all_announcement_language_channels_def py_str_def mention_everyone_def
  clean_message_def outbound_def full_message_def lang_name_def
  demo_config_def demo_world_def ascii_def py_lower_def ascii_lower_def py_strip_def is_space_def

lemma demo_guild_1:
  "get_all_announcement_language_channels demo_config 1 =
     [(ascii ''en'', 11), (ascii ''fr'', 12), (ascii ''de'', 13)]"
  by (simp add: get_all_announcement_language_channels_def demo_config_def py_str_def ascii_def)

lemma demo_guild_2:
  "get_all_announcement_language_channels demo_config 2 = [(ascii ''ko'', 14), (ascii ''pt'', 15)]"
  by (simp add: get_all_announcement_language_channels_def demo_config_def py_str_def ascii_def)


lemma demo_plain:
  "mention_everyone u (ascii ''Maintenance at 5'') = False
   \<and> clean_message u (ascii ''Maintenance at 5'') = ascii ''Maintenance at 5''
   \<and> mention_everyone u (ascii ''hi'') = False
   \<and> clean_message u (ascii ''hi'') = ascii ''hi''"
  by (simp add: mention_everyone_def clean_message_def py_lower_def ascii_lower_def ascii_def)


lemma demo_names:
  "lang_name demo_config (ascii ''fr'') = ascii ''fr''
   \<and> lang_name demo_config (ascii ''ko'') = ascii ''Korean''
   \<and> lang_name demo_config (ascii ''th'') = ascii ''Thai''"
  by (simp add: lang_name_def demo_config_def ascii_def)

subsection \<open>Translator calls\<close>




subsection \<open>One outcome for each destination\<close>



subsection \<open>Failures stay with their destination\<close>

text \<open>
  C7, as the code has it. Whatever happens at a destination \<open>d\<close>, the state reached
  before it is kept (nothing sent is undone) and every destination after it adds
  what it would add on its own. What \<open>d\<close> leaves in \<open>failed_channels\<close> is one entry
  when its channel does not resolve, one entry when its typing indicator or its
  send raises, and nothing otherwise; it is counted exactly when it leaves nothing.
  The translator is not among the causes: when it raises, the cleaned text is sent
  in place of a translation. A destination is sent to and translated for at most
  once.
\<close>

theorem announce_loop_isolation:
  "events (announce_loop w cfg clean everyone (ds1 @ d # ds2) s) =
     events (announce_loop w cfg clean everyone ds1 s)
     @ snd (try_destination w clean everyone d [])
     @ concat (map (\<lambda>x. snd (try_destination w clean everyone x [])) ds2)
   \<and> failed_channels (announce_loop w cfg clean everyone (ds1 @ d # ds2) s) =
     failed_channels (announce_loop w cfg clean everyone ds1 s)
     @ (case fst (try_destination w clean everyone d []) of
          Inr Delivered \<Rightarrow> []
        | Inr Skipped \<Rightarrow> [lang_name cfg (fst d) @ ascii '' (channel not found)'']
        | Inl e \<Rightarrow> [lang_name cfg (fst d) @ ascii '' (error)''])
     @ concat (map (\<lambda>x. failure_entry cfg (x, destination_status w clean everyone x)) ds2)
   \<and> sent_count (announce_loop w cfg clean everyone (ds1 @ d # ds2) s) =
     sent_count (announce_loop w cfg clean everyone ds1 s)
     + (if fst (try_destination w clean everyone d []) = Inr Delivered then 1 else 0)
     + int (length (filter (\<lambda>x. destination_status w clean everyone x = Sent) ds2))
   \<and> fst (try_destination w clean everyone d []) =
       (case get_channel w (snd d) of
          None \<Rightarrow> Inr Skipped
        | Some ch \<Rightarrow>
            if fst d = ascii ''en''
            then (case channel_send w ch
                         (Text (outbound everyone (full_message clean clean (fst d)))) of
                    Inl e \<Rightarrow> Inl e
                  | Inr sent \<Rightarrow> Inr Delivered)
            else (case typing w ch of
                    Inl e \<Rightarrow> Inl e
                  | Inr entered \<Rightarrow>
                      (case channel_send w ch
                              (Text (outbound everyone
                                 (full_message
                                    (case translator w (fst d) clean of
                                       Inr translated \<Rightarrow> translated
                                     | Inl e \<Rightarrow> clean)
                                    clean (fst d)))) of
                         Inl e \<Rightarrow> Inl e
                       | Inr sent \<Rightarrow> Inr Delivered)))
   \<and> snd (try_destination w clean everyone d []) =
       (case get_channel w (snd d) of
          None \<Rightarrow> []
        | Some ch \<Rightarrow>
            if fst d = ascii ''en''
            then [Send ch (Text (outbound everyone (full_message clean clean (fst d))))]
            else (case typing w ch of
                    Inl e \<Rightarrow> [Typing ch]
                  | Inr entered \<Rightarrow>
                      [Typing ch, Translate (fst d) clean,
                       Send ch (Text (outbound everyone
                         (full_message
                            (case translator w (fst d) clean of
                               Inr translated \<Rightarrow> translated
                             | Inl e \<Rightarrow> clean)
                            clean (fst d))))]))
   \<and> length (filter is_send (snd (try_destination w clean everyone d []))) \<le> 1
   \<and> length (filter is_translate (snd (try_destination w clean everyone d []))) \<le> 1"
proof -
  have recorded: "failure_entry cfg (d, destination_status w clean everyone d) =
      (case fst (try_destination w clean everyone d []) of
          Inr Delivered \<Rightarrow> []
        | Inr Skipped \<Rightarrow> [lang_name cfg (fst d) @ ascii '' (channel not found)'']
        | Inl e \<Rightarrow> [lang_name cfg (fst d) @ ascii '' (error)''])"
    by (cases "fst (try_destination w clean everyone d [])" rule: status_of.cases)
       (simp_all add: failure_entry_def destination_status_def)
  have counted: "(destination_status w clean everyone d = Sent)
      = (fst (try_destination w clean everyone d []) = Inr Delivered)"
    by (cases "fst (try_destination w clean everyone d [])" rule: status_of.cases)
       (simp_all add: destination_status_def)
  have ended: "fst (try_destination w clean everyone d []) =
       (case get_channel w (snd d) of
          None \<Rightarrow> Inr Skipped
        | Some ch \<Rightarrow>
            if fst d = ascii ''en''
            then (case channel_send w ch
                         (Text (outbound everyone (full_message clean clean (fst d)))) of
                    Inl e \<Rightarrow> Inl e
                  | Inr sent \<Rightarrow> Inr Delivered)
            else (case typing w ch of
                    Inl e \<Rightarrow> Inl e
                  | Inr entered \<Rightarrow>
                      (case channel_send w ch
                              (Text (outbound everyone
                                 (full_message
                                    (case translator w (fst d) clean of
                                       Inr translated \<Rightarrow> translated
                                     | Inl e \<Rightarrow> clean)
                                    clean (fst d)))) of
                         Inl e \<Rightarrow> Inl e
                       | Inr sent \<Rightarrow> Inr Delivered)))"
    using try_destination_exit [of w clean everyone "fst d" "snd d" "[]"] by simp
  have calls: "snd (try_destination w clean everyone d []) =
       (case get_channel w (snd d) of
          None \<Rightarrow> []
        | Some ch \<Rightarrow>
            if fst d = ascii ''en''
            then [Send ch (Text (outbound everyone (full_message clean clean (fst d))))]
            else (case typing w ch of
                    Inl e \<Rightarrow> [Typing ch]
                  | Inr entered \<Rightarrow>
                      [Typing ch, Translate (fst d) clean,
                       Send ch (Text (outbound everyone
                         (full_message
                            (case translator w (fst d) clean of
                               Inr translated \<Rightarrow> translated
                             | Inl e \<Rightarrow> clean)
                            clean (fst d))))]))"
    using try_destination_trace [of w clean everyone "fst d" "snd d" "[]"] by simp
  have once: "length (filter is_send (snd (try_destination w clean everyone d []))) \<le> 1
      \<and> length (filter is_translate (snd (try_destination w clean everyone d []))) \<le> 1"
    using try_destination_send [of w clean everyone d]
    by (simp add: try_destination_translate)
  have loop: "events (announce_loop w cfg clean everyone (ds1 @ d # ds2) s) =
       events (announce_loop w cfg clean everyone ds1 s)
       @ snd (try_destination w clean everyone d [])
       @ concat (map (\<lambda>x. snd (try_destination w clean everyone x [])) ds2)
     \<and> failed_channels (announce_loop w cfg clean everyone (ds1 @ d # ds2) s) =
       failed_channels (announce_loop w cfg clean everyone ds1 s)
       @ failure_entry cfg (d, destination_status w clean everyone d)
       @ concat (map (\<lambda>x. failure_entry cfg (x, destination_status w clean everyone x)) ds2)
     \<and> sent_count (announce_loop w cfg clean everyone (ds1 @ d # ds2) s) =
       sent_count (announce_loop w cfg clean everyone ds1 s)
       + (if destination_status w clean everyone d = Sent then 1 else 0)
       + int (length (filter (\<lambda>x. destination_status w clean everyone x = Sent) ds2))"
    by (simp add: loop_events loop_failed loop_sent)
  show ?thesis
    using loop once
    by (simp only: recorded counted) (use ended calls in blast)
qed

theorem announce_loop_isolation_witness:
  "failed_channels
     (announce_loop demo_world demo_config (ascii ''hi'') False
        ([(ascii ''ko'', 14)] @ (ascii ''th'', 16) # [(ascii ''pt'', 15)])
        \<lparr>sent_count = 0, failed_channels = [], events = []\<rparr>)
     = [ascii ''Korean (error)'', ascii ''Thai (error)'']
   \<and> sent_count
     (announce_loop demo_world demo_config (ascii ''hi'') False
        ([(ascii ''ko'', 14)] @ (ascii ''th'', 16) # [(ascii ''pt'', 15)])
        \<lparr>sent_count = 0, failed_channels = [], events = []\<rparr>) = 1
   \<and> events
     (announce_loop demo_world demo_config (ascii ''hi'') False
        ([(ascii ''ko'', 14)] @ (ascii ''th'', 16) # [(ascii ''pt'', 15)])
        \<lparr>sent_count = 0, failed_channels = [], events = []\<rparr>) =
     [Typing (TextChannel 14), Translate (ascii ''ko'') (ascii ''hi''),
      Send (TextChannel 14)
        (Text (announcement_header @ ascii ''ko: hi'' @ original_label @ ascii ''hi'')),
      Typing (TextChannel 16),
      Typing (TextChannel 15), Translate (ascii ''pt'') (ascii ''hi''),
      Send (TextChannel 15)
        (Text (announcement_header @ ascii ''pt: hi'' @ original_label @ ascii ''hi''))]"
proof -
  have before: "announce_destination demo_world demo_config (ascii ''hi'') False (ascii ''ko'', 14)
        \<lparr>sent_count = 0, failed_channels = [], events = []\<rparr> =
      \<lparr>sent_count = 0, failed_channels = [ascii ''Korean (error)''],
       events = [Typing (TextChannel 14), Translate (ascii ''ko'') (ascii ''hi''),
         Send (TextChannel 14)
           (Text (announcement_header @ ascii ''ko: hi'' @ original_label @ ascii ''hi''))]\<rparr>"
    by (simp add: announce_destination_def try_destination_def translated_message_def
          translate_text_def demo_ops Let_def)
  have pt: "destination_status demo_world (ascii ''hi'') False (ascii ''pt'', 15) = Sent
      \<and> snd (try_destination demo_world (ascii ''hi'') False (ascii ''pt'', 15) []) =
         [Typing (TextChannel 15), Translate (ascii ''pt'') (ascii ''hi''),
          Send (TextChannel 15)
            (Text (announcement_header @ ascii ''pt: hi'' @ original_label @ ascii ''hi''))]"
    by (simp add: destination_status_def try_destination_exit try_destination_trace
          demo_world_def outbound_def full_message_def ascii_def)
  have th: "fst (try_destination demo_world (ascii ''hi'') False (ascii ''th'', 16) [])
        = Inl (Exception (ascii ''403 Forbidden''))
      \<and> snd (try_destination demo_world (ascii ''hi'') False (ascii ''th'', 16) [])
        = [Typing (TextChannel 16)]"
    by (simp add: try_destination_exit try_destination_trace demo_world_def ascii_def)
  show ?thesis
    using announce_loop_isolation [of demo_world demo_config "ascii ''hi''" False
        "[(ascii ''ko'', 14)]" "(ascii ''th'', 16)" "[(ascii ''pt'', 15)]"
        "\<lparr>sent_count = 0, failed_channels = [], events = []\<rparr>"]
    by (simp add: before pt th failure_entry_def demo_names) (simp add: ascii_def)
qed

text \<open>
  The provider is down for German: the translator is called for \<open>de\<close> and raises,
  and \<open>failed_channels\<close> has no entry for German.
\<close>

theorem announce_translation_failure_unrecorded_counterexample:
  "translator demo_world (ascii ''de'') (ascii ''hi'') = Inl (Exception (ascii ''provider down''))
   \<and> filter is_translate (events (announce demo_unicode demo_world demo_config 1 (ascii ''hi'')))
        = [Translate (ascii ''de'') (ascii ''hi'')]
   \<and> failed_channels (announce demo_unicode demo_world demo_config 1 (ascii ''hi''))
        = [ascii ''fr (channel not found)'']"
  by (simp add: announce_def announce_destination_def try_destination_def
        translated_message_def translate_text_def demo_ops Let_def)

subsection \<open>A translator that fails\<close>

lemma body_untranslated:
  assumes "lang_code \<noteq> ascii ''en''" and "get_channel w cid = Some ch"
    and "returned (typing w ch)" and "translator w lang_code clean = Inl e"
  shows "try_destination w clean everyone (lang_code, cid) tr =
     (case channel_send w ch
             (Text (outbound everyone (announcement_header @ clean @ original_label @ clean))) of
        Inr sent \<Rightarrow> Inr Delivered
      | Inl x \<Rightarrow> Inl x,
      tr @ [Typing ch, Translate lang_code clean,
            Send ch (Text (outbound everyone
              (announcement_header @ clean @ original_label @ clean)))])"
proof -
  obtain entered where "typing w ch = Inr entered"
    using assms(3) by (cases "typing w ch") simp_all
  then show ?thesis
    using assms(1,2,4)
    by (simp add: try_destination_def translated_message_def translate_text_def
          full_message_def Let_def split: sum.splits)
qed

lemma status_counted:
  assumes "d \<in> set ds" and "destination_status w clean everyone d = Sent"
  shows "1 \<le> int (length (filter (\<lambda>x. destination_status w clean everyone x = Sent) ds))"
proof -
  have "filter (\<lambda>x. destination_status w clean everyone x = Sent) ds \<noteq> []"
    using assms by (auto simp: filter_empty_conv)
  then show ?thesis
    by (cases "filter (\<lambda>x. destination_status w clean everyone x = Sent) ds") simp_all
qed

text \<open>
  C1, as the code has it: when the translator is called for a destination (its code
  is not \<open>en\<close>, its channel resolves, the typing indicator is entered) and raises,
  \<open>translate_text\<close> hands back the cleaned source text. From any state the loop body
  then sends the announcement with that text as its body, followed by the line of
  the original; it adds one to \<open>sent_count\<close> when the send returns and appends the
  \<open>(error)\<close> entry when the send raises. The message is in the trace of the command,
  whose \<open>sent_count\<close> counts the destination, or whose \<open>failed_channels\<close> names it.
\<close>

theorem announce_translation_failure:
  assumes "(lang_code, cid) \<in> set (get_all_announcement_language_channels cfg guild_id)"
    and "lang_code \<noteq> ascii ''en''" and "get_channel w cid = Some ch"
    and "returned (typing w ch)"
    and "translator w lang_code (clean_message u message) = Inl e"
  shows "let clean = clean_message u message;
             everyone = mention_everyone u message;
             msg = Text ((if everyone then ascii ''@everyone'' @ newline else [])
                         @ announcement_header @ clean @ original_label @ clean)
         in announce_destination w cfg clean everyone (lang_code, cid) s =
              (case channel_send w ch msg of
                 Inr sent \<Rightarrow>
                   s\<lparr>sent_count := sent_count s + 1,
                     events := events s @ [Typing ch, Translate lang_code clean, Send ch msg]\<rparr>
               | Inl x \<Rightarrow>
                   s\<lparr>failed_channels :=
                       failed_channels s @ [lang_name cfg lang_code @ ascii '' (error)''],
                     events := events s @ [Typing ch, Translate lang_code clean, Send ch msg]\<rparr>)
          \<and> Send ch msg \<in> set (events (announce u w cfg guild_id message))
          \<and> (returned (channel_send w ch msg)
               \<longrightarrow> 1 \<le> sent_count (announce u w cfg guild_id message))
          \<and> (\<not> returned (channel_send w ch msg)
               \<longrightarrow> lang_name cfg lang_code @ ascii '' (error)''
                     \<in> set (failed_channels (announce u w cfg guild_id message)))"
proof -
  let ?clean = "clean_message u message"
  let ?everyone = "mention_everyone u message"
  let ?msg = "Text ((if ?everyone then ascii ''@everyone'' @ newline else [])
                    @ announcement_header @ ?clean @ original_label @ ?clean)"
  let ?dests = "get_all_announcement_language_channels cfg guild_id"
  have msg: "Text (outbound ?everyone (announcement_header @ ?clean @ original_label @ ?clean))
               = ?msg"
    by (simp add: outbound_def)
  note body = body_untranslated [OF assms(2,3,4,5), of ?everyone, unfolded msg]
  have ne: "?dests \<noteq> []"
    using assms(1) by auto
  have step: "announce_destination w cfg ?clean ?everyone (lang_code, cid) s =
              (case channel_send w ch ?msg of
                 Inr sent \<Rightarrow>
                   s\<lparr>sent_count := sent_count s + 1,
                     events := events s @ [Typing ch, Translate lang_code ?clean, Send ch ?msg]\<rparr>
               | Inl x \<Rightarrow>
                   s\<lparr>failed_channels :=
                       failed_channels s @ [lang_name cfg lang_code @ ascii '' (error)''],
                     events := events s @ [Typing ch, Translate lang_code ?clean, Send ch ?msg]\<rparr>)"
    by (simp add: announce_destination_def body split: sum.splits)
  have "set (snd (try_destination w ?clean ?everyone (lang_code, cid) []))
          \<subseteq> set (events (announce u w cfg guild_id message))"
    using assms(1) by (auto simp: announce_events [OF ne])
  then have sent: "Send ch ?msg \<in> set (events (announce u w cfg guild_id message))"
    by (simp add: body)
  have status: "destination_status w ?clean ?everyone (lang_code, cid) =
      (case channel_send w ch ?msg of Inr sent \<Rightarrow> Sent | Inl x \<Rightarrow> SendFailed)"
    by (simp add: destination_status_def body split: sum.splits)
  have counted: "1 \<le> sent_count (announce u w cfg guild_id message)"
    if "returned (channel_send w ch ?msg)"
  proof -
    have "destination_status w ?clean ?everyone (lang_code, cid) = Sent"
      using that status by (cases "channel_send w ch ?msg") simp_all
    then show ?thesis
      using status_counted [OF assms(1)] by (simp add: announce_sent [OF ne])
  qed
  have recorded: "lang_name cfg lang_code @ ascii '' (error)''
      \<in> set (failed_channels (announce u w cfg guild_id message))"
    if "\<not> returned (channel_send w ch ?msg)"
  proof -
    have "destination_status w ?clean ?everyone (lang_code, cid) = SendFailed"
      using that status by (cases "channel_send w ch ?msg") simp_all
    then have "lang_name cfg lang_code @ ascii '' (error)''
        \<in> set (failure_entry cfg
                 ((lang_code, cid), destination_status w ?clean ?everyone (lang_code, cid)))"
      by (simp add: failure_entry_def)
    then show ?thesis
      using assms(1) by (auto simp: announce_failed [OF ne])
  qed
  show ?thesis
    unfolding Let_def using step sent counted recorded by blast
qed

theorem announce_translation_failure_witness:
  "(ascii ''de'', 13) \<in> set (get_all_announcement_language_channels demo_config 1)
   \<and> get_channel demo_world 13 = Some (TextChannel 13)
   \<and> returned (typing demo_world (TextChannel 13))
   \<and> translator demo_world (ascii ''de'') (clean_message demo_unicode (ascii ''Maintenance at 5''))
        = Inl (Exception (ascii ''provider down''))
   \<and> announce_destination demo_world demo_config (ascii ''Maintenance at 5'') False
        (ascii ''de'', 13) \<lparr>sent_count = 1, failed_channels = [], events = []\<rparr> =
       \<lparr>sent_count = 2, failed_channels = [],
        events = [Typing (TextChannel 13), Translate (ascii ''de'') (ascii ''Maintenance at 5''),
          Send (TextChannel 13)
            (Text (announcement_header @ ascii ''Maintenance at 5'' @ original_label
                   @ ascii ''Maintenance at 5''))]\<rparr>
   \<and> Send (TextChannel 13)
        (Text (announcement_header @ ascii ''Maintenance at 5'' @ original_label
               @ ascii ''Maintenance at 5''))
       \<in> set (events (announce demo_unicode demo_world demo_config 1 (ascii ''Maintenance at 5'')))
   \<and> 1 \<le> sent_count (announce demo_unicode demo_world demo_config 1 (ascii ''Maintenance at 5''))"
proof -
  have d: "(ascii ''de'', 13) \<in> set (get_all_announcement_language_channels demo_config 1)"
    by (simp add: demo_guild_1)
  have l: "ascii ''de'' \<noteq> ascii ''en''"
    by (simp add: ascii_def)
  have c: "get_channel demo_world 13 = Some (TextChannel 13)"
    by (simp add: demo_world_def)
  have y: "returned (typing demo_world (TextChannel 13))"
    by (simp add: demo_world_def)
  have t: "translator demo_world (ascii ''de'') (clean_message demo_unicode (ascii ''Maintenance at 5''))
             = Inl (Exception (ascii ''provider down''))"
    by (simp add: demo_world_def)
  have s: "channel_send demo_world (TextChannel 13) p = Inr ()" for p
    by (simp add: demo_world_def)
  show ?thesis
    using d c y t
      announce_translation_failure [OF d l c y t,
        of "\<lparr>sent_count = 1, failed_channels = [], events = []\<rparr>"]
    by (simp add: Let_def demo_plain s)
qed

text \<open>
  The scenario of the specification with the provider down for German: the German
  channel receives the English text and is counted among the two channels sent to.
\<close>

theorem announce_translation_failure_counterexample:
  "translator demo_world (ascii ''de'') (ascii ''Server is back'')
     = Inl (Exception (ascii ''provider down''))
   \<and> filter is_send
        (events (announce demo_unicode demo_world demo_config 1 (ascii ''Server is back''))) =
       [Send (TextChannel 11) (Text (announcement_header @ ascii ''Server is back'')),
        Send (TextChannel 13)
          (Text (announcement_header @ ascii ''Server is back'' @ original_label
                 @ ascii ''Server is back''))]
   \<and> filter is_translate
        (events (announce demo_unicode demo_world demo_config 1 (ascii ''Server is back'')))
        = [Translate (ascii ''de'') (ascii ''Server is back'')]
   \<and> sent_count (announce demo_unicode demo_world demo_config 1 (ascii ''Server is back'')) = 2
   \<and> failed_channels (announce demo_unicode demo_world demo_config 1 (ascii ''Server is back''))
        = [ascii ''fr (channel not found)'']"
  by (simp add: announce_def announce_destination_def try_destination_def
        translated_message_def translate_text_def demo_ops Let_def)

subsection \<open>The everyone token\<close>

text \<open>
  C2 on the code: line 44 looks for the token in the lower-cased message, line 46
  removes only its lower-case spelling. \<open>@Everyone hi\<close> sets the flag and stays as
  it is: the token goes to the translator and into the body of every message.
  Removing \<open>@everyone\<close> can also uncover a \<open>--everyone\<close> that the first pass did not see.
\<close>

theorem announce_everyone_token_kept:
  "mention_everyone u (ascii ''@Everyone hi'')
   \<and> clean_message u (ascii ''@Everyone hi'') = ascii ''@Everyone hi''
   \<and> filter is_send (events (announce u demo_world demo_config 1 (ascii ''@Everyone hi''))) =
       [Send (TextChannel 11)
          (Text (ascii ''@everyone'' @ newline @ announcement_header @ ascii ''@Everyone hi'')),
        Send (TextChannel 13)
          (Text (ascii ''@everyone'' @ newline @ announcement_header @ ascii ''@Everyone hi''
                 @ original_label @ ascii ''@Everyone hi''))]
   \<and> filter is_translate (events (announce u demo_world demo_config 1 (ascii ''@Everyone hi'')))
       = [Translate (ascii ''de'') (ascii ''@Everyone hi'')]
   \<and> mention_everyone u (ascii ''--every@everyoneone hi'')
   \<and> clean_message u (ascii ''--every@everyoneone hi'') = ascii ''--everyone hi''"
  by (simp add: announce_def announce_destination_def try_destination_def
        translated_message_def translate_text_def demo_ops Let_def)

end
